theory Spec2Isabelle
  imports Main
begin

section \<open>The Linode Image resource controller\<close>

text \<open>
  A shallow embedding of \<^verbatim>\<open>linode/resource_linode_image.go\<close>: the five lifecycle
  operations of the Image resource (Exists, Read, Create, Update, Delete). The API client
  (\<^verbatim>\<open>linodego.Client\<close>) and the state store (\<^verbatim>\<open>schema.ResourceData\<close>) are the
  controller's collaborators; they are modelled by what the controller calls on them.
\<close>

subsection \<open>Errors\<close>

text \<open>
  A Go \<^verbatim>\<open>error\<close> value. \<open>LinodeError code message\<close> is a \<^verbatim>\<open>*linodego.Error\<close>, the only
  error type that exposes a status code; \<open>OtherError\<close> is any other error a collaborator
  returns (transport failure, timeout); \<open>Errorf format args\<close> is the value built by
  \<^verbatim>\<open>fmt.Errorf(format, args...)\<close>, kept with its format string and its arguments.
\<close>

datatype error =
    LinodeError int string
  | OtherError string
  | Errorf string "fmt_arg list"
and fmt_arg =
    ArgS string
  | ArgD int
  | ArgE error

text \<open>
  The test \<^verbatim>\<open>lerr, ok := err.(*linodego.Error); ok && lerr.Code == 404\<close>.
\<close>

fun isNotFound :: "error \<Rightarrow> bool" where
  "isNotFound (LinodeError code msg) = (code = 404)"
| "isNotFound (OtherError msg) = False"
| "isNotFound (Errorf f args) = False"

text \<open>
  A Go call either returns or panics (a failed single-value type assertion, a nil
  pointer dereference).
\<close>

datatype 'a outcome = Returns 'a | Panics

subsection \<open>The remote entity and the API client\<close>

text \<open>
  Modelled from the spec: the type \<^verbatim>\<open>linodego.Image\<close> is declared outside the repository.
  The fields are the ones the controller reads; their types are those of the schema
  attributes they are stored in. \<^verbatim>\<open>Created\<close> and \<^verbatim>\<open>Expiry\<close> are \<^verbatim>\<open>*time.Time\<close>, nil when
  absent; the representation of a time is left open (\<open>'tm\<close>).
\<close>

record 'tm Image =
  ID :: string
  Label :: string
  Description :: string
  Type :: string
  Size :: int
  Vendor :: string
  CreatedBy :: string
  Deprecated :: bool
  IsPublic :: bool
  Created :: "'tm option"
  Expiry :: "'tm option"

text \<open>
  \<^verbatim>\<open>linodego.ImageCreateOptions\<close> and \<^verbatim>\<open>linodego.ImageUpdateOptions\<close>, with the fields the
  controller fills in. An update's \<^verbatim>\<open>Description\<close> is a \<^verbatim>\<open>*string\<close>; the zero value of
  the options is the empty label and the nil description.
\<close>

record ImageCreateOptions =
  create_DiskID :: int
  create_Label :: string
  create_Description :: string

record ImageUpdateOptions =
  update_Label :: string
  update_Description :: "string option"

datatype DiskStatus = DiskReady | DiskNotReady | DiskDeleting

record InstanceDisk =
  disk_ID :: int
  disk_Status :: DiskStatus

text \<open>
  Modelled from the spec: the API client contract
  \<^verbatim>\<open>Get(id)\<close>, \<^verbatim>\<open>Create(options)\<close>, \<^verbatim>\<open>Update(id, options)\<close>, \<^verbatim>\<open>Delete(id)\<close> and
  \<^verbatim>\<open>WaitForStatus(id, status, timeoutSeconds)\<close>. A call acts on the remote world \<open>'w\<close>
  and returns Go's pair of a pointer (nil is \<open>None\<close>) and an error (nil is \<open>None\<close>).
\<close>

record ('w, 'tm) Client =
  GetImage :: "string \<Rightarrow> 'w \<Rightarrow> ('tm Image option \<times> error option) \<times> 'w"
  CreateImage :: "ImageCreateOptions \<Rightarrow> 'w \<Rightarrow> ('tm Image option \<times> error option) \<times> 'w"
  UpdateImage :: "string \<Rightarrow> ImageUpdateOptions \<Rightarrow> 'w \<Rightarrow> ('tm Image option \<times> error option) \<times> 'w"
  DeleteImage :: "string \<Rightarrow> 'w \<Rightarrow> error option \<times> 'w"
  WaitForInstanceDiskStatus ::
    "int \<Rightarrow> int \<Rightarrow> DiskStatus \<Rightarrow> int \<Rightarrow> 'w \<Rightarrow> (InstanceDisk option \<times> error option) \<times> 'w"

text \<open>
  The \<^verbatim>\<open>meta interface{}\<close> argument of every operation: a \<^verbatim>\<open>linodego.Client\<close> or something
  else.
\<close>

datatype ('w, 'tm) Meta = IsClient "('w, 'tm) Client" | NotAClient

text \<open>The requests issued to the API client, in order.\<close>

datatype Request =
    ReqGetImage string
  | ReqCreateImage ImageCreateOptions
  | ReqUpdateImage string ImageUpdateOptions
  | ReqDeleteImage string
  | ReqWaitForInstanceDiskStatus int int DiskStatus int

record 'w Remote =
  world :: 'w
  requests :: "Request list"

definition issue :: "Request \<Rightarrow> ('w \<Rightarrow> 'a \<times> 'w) \<Rightarrow> 'w Remote \<Rightarrow> 'a \<times> 'w Remote" where
  "issue req call s =
     (case call (world s) of
        (r, w') \<Rightarrow> (r, \<lparr>world = w', requests = requests s @ [req]\<rparr>))"

definition client_GetImage ::
  "('w, 'tm) Client \<Rightarrow> string \<Rightarrow> 'w Remote \<Rightarrow> ('tm Image option \<times> error option) \<times> 'w Remote" where
  "client_GetImage client ident = issue (ReqGetImage ident) (GetImage client ident)"

definition client_CreateImage ::
  "('w, 'tm) Client \<Rightarrow> ImageCreateOptions \<Rightarrow> 'w Remote
     \<Rightarrow> ('tm Image option \<times> error option) \<times> 'w Remote" where
  "client_CreateImage client opts = issue (ReqCreateImage opts) (CreateImage client opts)"

definition client_UpdateImage ::
  "('w, 'tm) Client \<Rightarrow> string \<Rightarrow> ImageUpdateOptions \<Rightarrow> 'w Remote
     \<Rightarrow> ('tm Image option \<times> error option) \<times> 'w Remote" where
  "client_UpdateImage client ident opts =
     issue (ReqUpdateImage ident opts) (UpdateImage client ident opts)"

definition client_DeleteImage ::
  "('w, 'tm) Client \<Rightarrow> string \<Rightarrow> 'w Remote \<Rightarrow> error option \<times> 'w Remote" where
  "client_DeleteImage client ident = issue (ReqDeleteImage ident) (DeleteImage client ident)"

definition client_WaitForInstanceDiskStatus ::
  "('w, 'tm) Client \<Rightarrow> int \<Rightarrow> int \<Rightarrow> DiskStatus \<Rightarrow> int \<Rightarrow> 'w Remote
     \<Rightarrow> (InstanceDisk option \<times> error option) \<times> 'w Remote" where
  "client_WaitForInstanceDiskStatus client linodeID diskID status timeoutSeconds =
     issue (ReqWaitForInstanceDiskStatus linodeID diskID status timeoutSeconds)
       (WaitForInstanceDiskStatus client linodeID diskID status timeoutSeconds)"

subsection \<open>The state store\<close>

text \<open>A value stored by \<^verbatim>\<open>d.Set\<close>: the schema has string, int and bool attributes.\<close>

datatype attr_value = VString string | VInt int | VBool bool

text \<open>
  Modelled from the spec: the state store contract of \<^verbatim>\<open>schema.ResourceData\<close>, which is
  declared outside the repository: get/set of a string ID, get/set of named attributes,
  and the query whether a field changed.
  \<^item> \<open>rd_id\<close> is the ID (\<^verbatim>\<open>d.Id()\<close>, \<^verbatim>\<open>d.SetId\<close>); the empty string is "no resource";
  \<^item> \<open>rd_string\<close> and \<open>rd_int\<close> are what \<^verbatim>\<open>d.Get(key).(string)\<close> and \<^verbatim>\<open>d.Get(key).(int)\<close>
    return (the schema fixes the type of every key, and an unset key reads as the zero
    value); \<open>rd_prior_string\<close> is the value before the change, which \<^verbatim>\<open>d.HasChange\<close>
    compares with;
  \<^item> \<open>rd_timeout\<close> is \<^verbatim>\<open>int(d.Timeout(key).Seconds())\<close>;
  \<^item> \<open>rd_attrs\<close> holds what \<^verbatim>\<open>d.Set\<close> has written;
  \<^item> \<open>rd_partial\<close> and \<open>rd_partial_keys\<close> are the partial-state mode and the keys marked
    by \<^verbatim>\<open>d.SetPartial\<close>.
  Go's \<^verbatim>\<open>int\<close> is modelled by \<open>int\<close>: the controller passes integers on and never
  computes with them.
\<close>

record ResourceData =
  rd_id :: string
  rd_string :: "string \<Rightarrow> string"
  rd_prior_string :: "string \<Rightarrow> string"
  rd_int :: "string \<Rightarrow> int"
  rd_timeout :: "string \<Rightarrow> int"
  rd_attrs :: "string \<rightharpoonup> attr_value"
  rd_partial :: bool
  rd_partial_keys :: "string set"

definition d_Id :: "ResourceData \<Rightarrow> string" where
  "d_Id d = rd_id d"

definition d_SetId :: "ResourceData \<Rightarrow> string \<Rightarrow> ResourceData" where
  "d_SetId d v = d\<lparr>rd_id := v\<rparr>"

definition d_Set :: "ResourceData \<Rightarrow> string \<Rightarrow> attr_value \<Rightarrow> ResourceData" where
  "d_Set d key v = d\<lparr>rd_attrs := (rd_attrs d)(key \<mapsto> v)\<rparr>"

definition d_HasChange :: "ResourceData \<Rightarrow> string \<Rightarrow> bool" where
  "d_HasChange d key = (rd_prior_string d key \<noteq> rd_string d key)"

definition d_Partial :: "ResourceData \<Rightarrow> bool \<Rightarrow> ResourceData" where
  "d_Partial d on =
     (if on then d\<lparr>rd_partial := True\<rparr>
      else d\<lparr>rd_partial := False, rd_partial_keys := {}\<rparr>)"

definition d_SetPartial :: "ResourceData \<Rightarrow> string \<Rightarrow> ResourceData" where
  "d_SetPartial d key =
     (if rd_partial d then d\<lparr>rd_partial_keys := insert key (rd_partial_keys d)\<rparr> else d)"

subsection \<open>Exists\<close>

text \<open>
  \<^verbatim>\<open>resourceLinodeImageExists\<close>: one \<^verbatim>\<open>GetImage\<close>; a 404 is "absent" and not an error.
\<close>

definition resourceLinodeImageExists ::
  "('w, 'tm) Meta \<Rightarrow> ResourceData \<Rightarrow> 'w Remote \<Rightarrow> ((bool \<times> error option) \<times> 'w Remote) outcome" where
  "resourceLinodeImageExists meta d s =
     (case meta of
        NotAClient \<Rightarrow> Panics
      | IsClient client \<Rightarrow>
          (case client_GetImage client (d_Id d) s of
             ((_, err), s1) \<Rightarrow>
               (case err of
                  Some e \<Rightarrow>
                    if isNotFound e then Returns ((False, None), s1)
                    else Returns ((False, Some (Errorf ''Error getting Linode Image ID %s: %s''
                                                  [ArgS (d_Id d), ArgE e])), s1)
                | None \<Rightarrow> Returns ((True, None), s1))))"

subsection \<open>Read\<close>

text \<open>
  \<^verbatim>\<open>resourceLinodeImageRead\<close>. The image of the first \<^verbatim>\<open>GetImage\<close> is kept and its error
  is overwritten by the one of \<^verbatim>\<open>resourceLinodeImageExists\<close>, which fetches the image a
  second time. The fields are read through the pointer \<^verbatim>\<open>image\<close> (\<open>imagep\<close>, nil is \<open>None\<close>): reading them through
  a nil pointer panics. \<open>rfc3339\<close> stands for \<^verbatim>\<open>t.Format(time.RFC3339)\<close>. The call of
  \<^verbatim>\<open>log.Printf\<close> has no effect on the state and is left out.
\<close>

definition resourceLinodeImageRead ::
  "('tm \<Rightarrow> string) \<Rightarrow> ('w, 'tm) Meta \<Rightarrow> ResourceData \<Rightarrow> 'w Remote
     \<Rightarrow> (error option \<times> ResourceData \<times> 'w Remote) outcome" where
  "resourceLinodeImageRead rfc3339 meta d s =
     (case meta of
        NotAClient \<Rightarrow> Panics
      | IsClient client \<Rightarrow>
          (case client_GetImage client (d_Id d) s of
             ((imagep, _), s1) \<Rightarrow>
               (case resourceLinodeImageExists meta d s1 of
                  Panics \<Rightarrow> Panics
                | Returns ((found, err), s2) \<Rightarrow>
                    (case err of
                       Some e \<Rightarrow>
                         Returns (Some (Errorf ''Error finding the specified Linode Image: %s''
                                          [ArgE e]), d, s2)
                     | None \<Rightarrow>
                         if \<not> found then Returns (None, d_SetId d [], s2)
                         else
                           (case imagep of
                              None \<Rightarrow> Panics
                            | Some img \<Rightarrow>
                                let d = d_Set d ''label'' (VString (Label img));
                                    d = d_Set d ''description'' (VString (Description img));
                                    d = d_Set d ''type'' (VString (Type img));
                                    d = d_Set d ''size'' (VInt (Size img));
                                    d = d_Set d ''vendor'' (VString (Vendor img));
                                    d = d_Set d ''created_by'' (VString (CreatedBy img));
                                    d = d_Set d ''deprecated'' (VBool (Deprecated img));
                                    d = d_Set d ''is_public'' (VBool (IsPublic img));
                                    d = (case Created img of
                                           Some t \<Rightarrow> d_Set d ''created'' (VString (rfc3339 t))
                                         | None \<Rightarrow> d);
                                    d = (case Expiry img of
                                           Some t \<Rightarrow> d_Set d ''expiry'' (VString (rfc3339 t))
                                         | None \<Rightarrow> d)
                                in Returns (None, d, s2))))))"

subsection \<open>Create\<close>

text \<open>
  \<^verbatim>\<open>resourceLinodeImageCreate\<close>: wait for the disk, create the image, store its ID, wait
  for the disk again, confirm with Exists, then Read.
\<close>

definition resourceLinodeImageCreate ::
  "('tm \<Rightarrow> string) \<Rightarrow> ('w, 'tm) Meta \<Rightarrow> ResourceData \<Rightarrow> 'w Remote
     \<Rightarrow> (error option \<times> ResourceData \<times> 'w Remote) outcome" where
  "resourceLinodeImageCreate rfc3339 meta d s =
     (case meta of
        NotAClient \<Rightarrow>
          Returns (Some (Errorf ''Invalid Client when creating Linode Image'' []), d, s)
      | IsClient client \<Rightarrow>
          let d = d_Partial d True;
              linodeID = rd_int d ''linode_id'';
              diskID = rd_int d ''disk_id''
          in
          (case client_WaitForInstanceDiskStatus client linodeID diskID DiskReady
                  (rd_timeout d ''create'') s of
             ((_, Some _), s1) \<Rightarrow>
               Returns (Some (Errorf
                 ''Error waiting for Linode Instance %d Disk %d to become ready for taking an Image''
                 [ArgD linodeID, ArgD diskID]), d, s1)
           | ((_, None), s1) \<Rightarrow>
               let createOpts = \<lparr>create_DiskID = diskID,
                                 create_Label = rd_string d ''label'',
                                 create_Description = rd_string d ''description''\<rparr>
               in
               (case client_CreateImage client createOpts s1 of
                  ((_, Some e), s2) \<Rightarrow>
                    Returns (Some (Errorf ''Error creating a Linode Image: %s'' [ArgE e]), d, s2)
                | ((None, None), s2) \<Rightarrow> Panics
                | ((Some img, None), s2) \<Rightarrow>
                    let d = d_SetId d (ID img);
                        d = d_SetPartial d ''label'';
                        d = d_SetPartial d ''description'';
                        d = d_Partial d False
                    in
                    (case client_WaitForInstanceDiskStatus client linodeID diskID DiskReady
                            (rd_timeout d ''create'') s2 of
                       ((_, Some _), s3) \<Rightarrow>
                         Returns (Some (Errorf
                           ''Error waiting for Linode Instance %d Disk %d to become ready while taking an Image''
                           [ArgD linodeID, ArgD diskID]), d, s3)
                     | ((_, None), s3) \<Rightarrow>
                         (case resourceLinodeImageExists meta d s3 of
                            Panics \<Rightarrow> Panics
                          | Returns ((found, Some e), s4) \<Rightarrow>
                              Returns (Some (Errorf
                                ''Error finding the newly created Linode Image: %s'' [ArgE e]), d, s4)
                          | Returns ((found, None), s4) \<Rightarrow>
                              if \<not> found then
                                Returns (Some (Errorf ''The Linode Image failed to be created'' []),
                                         d, s4)
                              else resourceLinodeImageRead rfc3339 meta d s4)))))"

subsection \<open>Update\<close>

text \<open>
  \<^verbatim>\<open>resourceLinodeImageUpdate\<close>: fetch the image, fill the update options from the changed
  fields, send them, store the returned label and description, then Read.
\<close>

definition resourceLinodeImageUpdate ::
  "('tm \<Rightarrow> string) \<Rightarrow> ('w, 'tm) Meta \<Rightarrow> ResourceData \<Rightarrow> 'w Remote
     \<Rightarrow> (error option \<times> ResourceData \<times> 'w Remote) outcome" where
  "resourceLinodeImageUpdate rfc3339 meta d s =
     (case meta of
        NotAClient \<Rightarrow> Panics
      | IsClient client \<Rightarrow>
          (case client_GetImage client (d_Id d) s of
             ((_, Some e), s1) \<Rightarrow>
               Returns (Some (Errorf ''Error fetching data about the current Image: %s''
                                [ArgE e]), d, s1)
           | ((_, None), s1) \<Rightarrow>
               let updateOpts = \<lparr>update_Label = [], update_Description = None\<rparr>;
                   updateOpts =
                     (if d_HasChange d ''label''
                      then updateOpts\<lparr>update_Label := rd_string d ''label''\<rparr>
                      else updateOpts);
                   updateOpts =
                     (if d_HasChange d ''description''
                      then updateOpts\<lparr>update_Description := Some (rd_string d ''description'')\<rparr>
                      else updateOpts)
               in
               (case client_UpdateImage client (d_Id d) updateOpts s1 of
                  ((_, Some e), s2) \<Rightarrow> Returns (Some e, d, s2)
                | ((None, None), s2) \<Rightarrow> Panics
                | ((Some img, None), s2) \<Rightarrow>
                    let d = d_Set d ''label'' (VString (Label img));
                        d = d_Set d ''description'' (VString (Description img))
                    in resourceLinodeImageRead rfc3339 meta d s2)))"

subsection \<open>Delete\<close>

text \<open>\<^verbatim>\<open>resourceLinodeImageDelete\<close>: one \<^verbatim>\<open>DeleteImage\<close>; the ID is cleared when it succeeds.\<close>

definition resourceLinodeImageDelete ::
  "('w, 'tm) Meta \<Rightarrow> ResourceData \<Rightarrow> 'w Remote
     \<Rightarrow> (error option \<times> ResourceData \<times> 'w Remote) outcome" where
  "resourceLinodeImageDelete meta d s =
     (case meta of
        NotAClient \<Rightarrow> Panics
      | IsClient client \<Rightarrow>
          (case client_DeleteImage client (d_Id d) s of
             (Some e, s1) \<Rightarrow>
               Returns (Some (Errorf ''Error deleting Linode Image %s: %s''
                                [ArgS (d_Id d), ArgE e]), d, s1)
           | (None, s1) \<Rightarrow> Returns (None, d_SetId d [], s1)))"

text \<open>What an operation returned: its error, the state store it left, the requests it sent.\<close>

definition returned_error ::
  "(error option \<times> ResourceData \<times> 'w Remote) outcome \<Rightarrow> error option option" where
  "returned_error r = (case r of Returns (e, d, s) \<Rightarrow> Some e | Panics \<Rightarrow> None)"

definition returned_data ::
  "(error option \<times> ResourceData \<times> 'w Remote) outcome \<Rightarrow> ResourceData option" where
  "returned_data r = (case r of Returns (e, d, s) \<Rightarrow> Some d | Panics \<Rightarrow> None)"

definition returned_requests ::
  "(error option \<times> ResourceData \<times> 'w Remote) outcome \<Rightarrow> Request list option" where
  "returned_requests r = (case r of Returns (e, d, s) \<Rightarrow> Some (requests s) | Panics \<Rightarrow> None)"

subsection \<open>The change detector\<close>

text \<open>
  Modelled from the spec: \<^verbatim>\<open>detectVolumeIDChange\<close> (the spec's \<^verbatim>\<open>DetectOptionalIntChange\<close>)
  is called by \<^verbatim>\<open>TestAccLinodeVolume_detectVolumeIDChange\<close>, and its body is not among
  the sources. The spec: two optional integers are equal if both are absent, unequal if
  exactly one is absent, unequal if both are present but differ in value.
\<close>

fun detectVolumeIDChange :: "int option \<Rightarrow> int option \<Rightarrow> bool" where
  "detectVolumeIDChange None None = False"
| "detectVolumeIDChange None (Some w) = True"
| "detectVolumeIDChange (Some h) None = True"
| "detectVolumeIDChange (Some h) (Some w) = (h \<noteq> w)"

subsection \<open>A scripted API client\<close>

text \<open>
  A client for concrete runs. Its world is the number of calls made so far; call number
  \<open>n\<close> fails with \<open>script n\<close> when that is an error (returning a nil pointer, as
  \<^verbatim>\<open>linodego\<close> does) and succeeds otherwise. Times are seconds since the epoch.
\<close>

definition snapshot :: "nat Image" where
  "snapshot = \<lparr>ID = ''private/67'', Label = ''snap'', Description = ''nightly'',
     Type = ''manual'', Size = 2500, Vendor = [], CreatedBy = ''alice'',
     Deprecated = False, IsPublic = False, Created = Some 86400, Expiry = None\<rparr>"

definition scripted :: "(nat \<Rightarrow> error option) \<Rightarrow> (nat, nat) Client" where
  "scripted script =
     \<lparr>GetImage = (\<lambda>ident n.
        (case script n of
           Some e \<Rightarrow> (None, Some e)
         | None \<Rightarrow> (Some (snapshot\<lparr>ID := ident\<rparr>), None), Suc n)),
      CreateImage = (\<lambda>opts n.
        (case script n of
           Some e \<Rightarrow> (None, Some e)
         | None \<Rightarrow> (Some (snapshot\<lparr>Label := create_Label opts,
                                     Description := create_Description opts\<rparr>), None), Suc n)),
      UpdateImage = (\<lambda>ident opts n.
        (case script n of
           Some e \<Rightarrow> (None, Some e)
         | None \<Rightarrow> (Some (snapshot\<lparr>ID := ident\<rparr>), None), Suc n)),
      DeleteImage = (\<lambda>ident n. (script n, Suc n)),
      WaitForInstanceDiskStatus = (\<lambda>linodeID diskID status timeoutSeconds n.
        (case script n of
           Some e \<Rightarrow> (None, Some e)
         | None \<Rightarrow> (Some \<lparr>disk_ID = diskID, disk_Status = status\<rparr>, None), Suc n))\<rparr>"

definition healthy :: "nat \<Rightarrow> error option" where
  "healthy n = None"

definition always_gone :: "nat \<Rightarrow> error option" where
  "always_gone n = Some (LinodeError 404 ''Not found'')"

definition always_down :: "nat \<Rightarrow> error option" where
  "always_down n = Some (OtherError ''connection refused'')"

definition fails_at :: "nat \<Rightarrow> error \<Rightarrow> nat \<Rightarrow> error option" where
  "fails_at k e n = (if n = k then Some e else None)"

definition day_stamp :: "nat \<Rightarrow> string" where
  "day_stamp t = (if t = 86400 then ''1970-01-02T00:00:00Z'' else ''1970-01-01T00:00:00Z'')"

definition start :: "nat Remote" where
  "start = \<lparr>world = 0, requests = []\<rparr>"

text \<open>
  A state store that holds the image \<^verbatim>\<open>private/67\<close> with nothing changed, and one that
  holds the configuration of an image still to be created (no ID).
\<close>

definition stored :: ResourceData where
  "stored = \<lparr>rd_id = ''private/67'',
     rd_string = (\<lambda>key. if key = ''label'' then ''snap''
                         else if key = ''description'' then ''nightly'' else []),
     rd_prior_string = (\<lambda>key. if key = ''label'' then ''snap''
                               else if key = ''description'' then ''nightly'' else []),
     rd_int = (\<lambda>key. if key = ''linode_id'' then 200
                      else if key = ''disk_id'' then 100 else 0),
     rd_timeout = (\<lambda>key. 1200),
     rd_attrs = Map.empty,
     rd_partial = False,
     rd_partial_keys = {}\<rparr>"

definition planned :: ResourceData where
  "planned = stored\<lparr>rd_id := [], rd_prior_string := (\<lambda>key. [])\<rparr>"

text \<open>The stored image with a new label in the configuration (the description is unchanged).\<close>

definition relabelled :: ResourceData where
  "relabelled = stored\<lparr>rd_string := (\<lambda>key. if key = ''label'' then ''weekly''
                                         else if key = ''description'' then ''nightly'' else [])\<rparr>"

section \<open>Properties\<close>

subsection \<open>Requests sent by Exists and Read\<close>

lemma issue_requests:
  "issue req call s = (r, s') \<Longrightarrow> requests s' = requests s @ [req]"
  by (auto simp: issue_def split: prod.splits)

lemma client_GetImage_requests:
  "client_GetImage client ident s = (r, s') \<Longrightarrow> requests s' = requests s @ [ReqGetImage ident]"
  unfolding client_GetImage_def by (rule issue_requests)

lemma Exists_requests:
  assumes "resourceLinodeImageExists (IsClient client) d s = Returns (r, s')"
  shows "requests s' = requests s @ [ReqGetImage (d_Id d)]"
proof -
  obtain p e s1 where g: "client_GetImage client (d_Id d) s = ((p, e), s1)"
    by (metis prod.exhaust)
  from assms g have "s' = s1"
    by (auto simp: resourceLinodeImageExists_def split: option.splits if_splits)
  with client_GetImage_requests [OF g] show ?thesis by simp
qed

lemma Exists_returns:
  "\<exists>found err s'. resourceLinodeImageExists (IsClient client) d s = Returns ((found, err), s')"
  by (auto simp: resourceLinodeImageExists_def split: option.splits prod.splits)

lemma Read_requests:
  assumes "resourceLinodeImageRead rfc3339 (IsClient client) d s = Returns (e, d', s')"
  shows "requests s' = requests s @ [ReqGetImage (d_Id d), ReqGetImage (d_Id d)]"
proof -
  obtain p e0 s1 where g: "client_GetImage client (d_Id d) s = ((p, e0), s1)"
    by (metis prod.exhaust)
  obtain found err s2 where x: "resourceLinodeImageExists (IsClient client) d s1 = Returns ((found, err), s2)"
    using Exists_returns by blast
  from assms g x have "s' = s2"
    by (auto simp: resourceLinodeImageRead_def Let_def split: option.splits if_splits)
  with client_GetImage_requests [OF g] Exists_requests [OF x] show ?thesis by simp
qed

lemma client_CreateImage_requests:
  "client_CreateImage client opts s = (r, s') \<Longrightarrow> requests s' = requests s @ [ReqCreateImage opts]"
  unfolding client_CreateImage_def by (rule issue_requests)

lemma client_UpdateImage_requests:
  "client_UpdateImage client ident opts s = (r, s') \<Longrightarrow>
     requests s' = requests s @ [ReqUpdateImage ident opts]"
  unfolding client_UpdateImage_def by (rule issue_requests)

lemma client_WaitForInstanceDiskStatus_requests:
  "client_WaitForInstanceDiskStatus client l k st t s = (r, s') \<Longrightarrow>
     requests s' = requests s @ [ReqWaitForInstanceDiskStatus l k st t]"
  unfolding client_WaitForInstanceDiskStatus_def by (rule issue_requests)

lemma Read_error_keeps_state:
  assumes "resourceLinodeImageRead rfc3339 (IsClient client) d s = Returns (Some e, d', s')"
  shows "d' = d"
proof -
  obtain p e0 s1 where g: "client_GetImage client (d_Id d) s = ((p, e0), s1)"
    by (metis prod.exhaust)
  obtain found err s2 where
    x: "resourceLinodeImageExists (IsClient client) d s1 = Returns ((found, err), s2)"
    using Exists_returns by blast
  from assms g x show ?thesis
    by (auto simp: resourceLinodeImageRead_def Let_def split: option.splits if_splits)
qed

text \<open>The definitions that a concrete run unfolds.\<close>

lemmas run_defs = client_GetImage_def client_CreateImage_def client_UpdateImage_def
  client_DeleteImage_def client_WaitForInstanceDiskStatus_def issue_def scripted_def
  healthy_def always_gone_def always_down_def fails_at_def stored_def planned_def start_def
  snapshot_def relabelled_def day_stamp_def d_Id_def d_SetId_def d_Set_def d_HasChange_def d_Partial_def
  d_SetPartial_def

lemmas op_defs = resourceLinodeImageCreate_def resourceLinodeImageRead_def
  resourceLinodeImageExists_def resourceLinodeImageUpdate_def resourceLinodeImageDelete_def
  returned_error_def returned_data_def returned_requests_def

subsection \<open>The change detector\<close>

text \<open>
  C1. For every pair of optional integers, \<^verbatim>\<open>detectVolumeIDChange\<close> is false when both are
  nil, true when exactly one is nil, and, when both are present, true if and only if the
  two values differ. In one line: it is true exactly when the two optional integers are
  different.
\<close>

theorem detectVolumeIDChange_cases:
  "detectVolumeIDChange None None = False
   \<and> detectVolumeIDChange None (Some w) = True
   \<and> detectVolumeIDChange (Some h) None = True
   \<and> detectVolumeIDChange (Some h) (Some w) = (h \<noteq> w)
   \<and> detectVolumeIDChange x y = (x \<noteq> y)"
  by (cases x; cases y) simp_all

text \<open>
  The four checks of \<^verbatim>\<open>TestAccLinodeVolume_detectVolumeIDChange\<close>, with \<^verbatim>\<open>one\<close> and \<^verbatim>\<open>two\<close>
  pointing to 1 and 2.
\<close>

lemma detectVolumeIDChange_test:
  "\<not> detectVolumeIDChange None None
   \<and> detectVolumeIDChange None (Some 1)
   \<and> detectVolumeIDChange (Some 1) None
   \<and> detectVolumeIDChange (Some 1) (Some 2)"
  by simp

subsection \<open>Exists\<close>

text \<open>
  C4. For every ID, Exists returns (false, nil) exactly when the client's get reports an
  error with code 404, returns (true, nil) when the get succeeds, and returns an error
  (wrapping the get's error and naming the ID) for every other failure of the get.
\<close>

theorem Exists_not_found_is_not_an_error:
  assumes "client_GetImage client (d_Id d) s = ((imagep, gerr), s1)"
  shows "(gerr = None \<longrightarrow>
            resourceLinodeImageExists (IsClient client) d s = Returns ((True, None), s1))
       \<and> ((\<exists>msg. gerr = Some (LinodeError 404 msg)) \<longrightarrow>
            resourceLinodeImageExists (IsClient client) d s = Returns ((False, None), s1))
       \<and> (\<forall>e. gerr = Some e \<and> (\<forall>msg. e \<noteq> LinodeError 404 msg) \<longrightarrow>
            resourceLinodeImageExists (IsClient client) d s =
              Returns ((False, Some (Errorf ''Error getting Linode Image ID %s: %s''
                                       [ArgS (d_Id d), ArgE e])), s1))
       \<and> (resourceLinodeImageExists (IsClient client) d s = Returns ((False, None), s1)
            \<longleftrightarrow> (\<exists>msg. gerr = Some (LinodeError 404 msg)))"
proof -
  have nf: "isNotFound e \<longleftrightarrow> (\<exists>msg. e = LinodeError 404 msg)" for e
    by (cases e) auto
  show ?thesis
    using assms nf
    by (auto simp: resourceLinodeImageExists_def split: option.splits)
qed

theorem Exists_not_found_is_not_an_error_witness:
  "resourceLinodeImageExists (IsClient (scripted healthy)) stored start =
     Returns ((True, None), \<lparr>world = 1, requests = [ReqGetImage ''private/67'']\<rparr>)
   \<and> resourceLinodeImageExists (IsClient (scripted always_gone)) stored start =
     Returns ((False, None), \<lparr>world = 1, requests = [ReqGetImage ''private/67'']\<rparr>)
   \<and> resourceLinodeImageExists (IsClient (scripted always_down)) stored start =
     Returns ((False, Some (Errorf ''Error getting Linode Image ID %s: %s''
                 [ArgS ''private/67'', ArgE (OtherError ''connection refused'')])),
              \<lparr>world = 1, requests = [ReqGetImage ''private/67'']\<rparr>)"
proof -
  have ok: "client_GetImage (scripted healthy) (d_Id stored) start =
      ((Some (snapshot\<lparr>ID := ''private/67''\<rparr>), None),
       \<lparr>world = 1, requests = [ReqGetImage ''private/67'']\<rparr>)"
    by (simp add: run_defs)
  have gone: "client_GetImage (scripted always_gone) (d_Id stored) start =
      ((None, Some (LinodeError 404 ''Not found'')),
       \<lparr>world = 1, requests = [ReqGetImage ''private/67'']\<rparr>)"
    by (simp add: run_defs)
  have down: "client_GetImage (scripted always_down) (d_Id stored) start =
      ((None, Some (OtherError ''connection refused'')),
       \<lparr>world = 1, requests = [ReqGetImage ''private/67'']\<rparr>)"
    by (simp add: run_defs)
  have id: "d_Id stored = ''private/67''"
    by (simp add: run_defs)
  show ?thesis
    using Exists_not_found_is_not_an_error [OF ok] Exists_not_found_is_not_an_error [OF gone]
      Exists_not_found_is_not_an_error [OF down] id
    by simp
qed

subsection \<open>Read\<close>

text \<open>
  C5. When Exists reports the entity absent, Read clears the local ID (sets it to the
  empty string), sets no attribute, and returns success.
\<close>

theorem Read_clears_id_when_gone:
  assumes "client_GetImage client (d_Id d) s = (r, s1)"
    and "resourceLinodeImageExists (IsClient client) d s1 = Returns ((False, None), s2)"
  shows "\<exists>d'. resourceLinodeImageRead rfc3339 (IsClient client) d s = Returns (None, d', s2)
           \<and> d_Id d' = [] \<and> rd_attrs d' = rd_attrs d \<and> d' = d\<lparr>rd_id := []\<rparr>"
  using assms
  by (cases r) (simp add: resourceLinodeImageRead_def d_SetId_def d_Id_def)

theorem Read_clears_id_when_gone_witness:
  "resourceLinodeImageRead day_stamp (IsClient (scripted always_gone)) stored start =
     Returns (None, stored\<lparr>rd_id := []\<rparr>,
       \<lparr>world = 2, requests = [ReqGetImage ''private/67'', ReqGetImage ''private/67'']\<rparr>)"
proof -
  have g: "client_GetImage (scripted always_gone) (d_Id stored) start =
      ((None, Some (LinodeError 404 ''Not found'')),
       \<lparr>world = 1, requests = [ReqGetImage ''private/67'']\<rparr>)"
    by (simp add: run_defs)
  have x: "resourceLinodeImageExists (IsClient (scripted always_gone)) stored
      \<lparr>world = 1, requests = [ReqGetImage ''private/67'']\<rparr> =
      Returns ((False, None),
        \<lparr>world = 2, requests = [ReqGetImage ''private/67'', ReqGetImage ''private/67'']\<rparr>)"
    by (simp add: resourceLinodeImageExists_def run_defs)
  show ?thesis
    using Read_clears_id_when_gone [OF g x, of day_stamp] by auto
qed

text \<open>
  C9. When the fetch returns the entity and Exists reports it present, Read stores label,
  description, type, size, vendor, created_by, deprecated and is_public from the entity,
  and stores created and expiry, formatted as a timestamp string, exactly when the remote
  value is not nil (the attribute keeps what it held otherwise). The ID is unchanged.
\<close>

theorem Read_maps_every_field:
  assumes "client_GetImage client (d_Id d) s = ((Some img, e0), s1)"
    and "resourceLinodeImageExists (IsClient client) d s1 = Returns ((True, None), s2)"
  shows "\<exists>d'. resourceLinodeImageRead rfc3339 (IsClient client) d s = Returns (None, d', s2)
           \<and> rd_id d' = rd_id d
           \<and> rd_attrs d' ''label'' = Some (VString (Label img))
           \<and> rd_attrs d' ''description'' = Some (VString (Description img))
           \<and> rd_attrs d' ''type'' = Some (VString (Type img))
           \<and> rd_attrs d' ''size'' = Some (VInt (Size img))
           \<and> rd_attrs d' ''vendor'' = Some (VString (Vendor img))
           \<and> rd_attrs d' ''created_by'' = Some (VString (CreatedBy img))
           \<and> rd_attrs d' ''deprecated'' = Some (VBool (Deprecated img))
           \<and> rd_attrs d' ''is_public'' = Some (VBool (IsPublic img))
           \<and> rd_attrs d' ''created'' =
               (case Created img of
                  Some t \<Rightarrow> Some (VString (rfc3339 t))
                | None \<Rightarrow> rd_attrs d ''created'')
           \<and> rd_attrs d' ''expiry'' =
               (case Expiry img of
                  Some t \<Rightarrow> Some (VString (rfc3339 t))
                | None \<Rightarrow> rd_attrs d ''expiry'')"
  using assms
  by (simp add: resourceLinodeImageRead_def d_Set_def d_Id_def Let_def split: option.splits)

theorem Read_maps_every_field_witness:
  "\<exists>d'. resourceLinodeImageRead day_stamp (IsClient (scripted healthy)) stored start =
       Returns (None, d',
         \<lparr>world = 2, requests = [ReqGetImage ''private/67'', ReqGetImage ''private/67'']\<rparr>)
     \<and> rd_id d' = ''private/67''
     \<and> rd_attrs d' ''label'' = Some (VString ''snap'')
     \<and> rd_attrs d' ''description'' = Some (VString ''nightly'')
     \<and> rd_attrs d' ''type'' = Some (VString ''manual'')
     \<and> rd_attrs d' ''size'' = Some (VInt 2500)
     \<and> rd_attrs d' ''vendor'' = Some (VString [])
     \<and> rd_attrs d' ''created_by'' = Some (VString ''alice'')
     \<and> rd_attrs d' ''deprecated'' = Some (VBool False)
     \<and> rd_attrs d' ''is_public'' = Some (VBool False)
     \<and> rd_attrs d' ''created'' = Some (VString ''1970-01-02T00:00:00Z'')
     \<and> rd_attrs d' ''expiry'' = None"
proof -
  have g: "client_GetImage (scripted healthy) (d_Id stored) start =
      ((Some (snapshot\<lparr>ID := ''private/67''\<rparr>), None),
       \<lparr>world = 1, requests = [ReqGetImage ''private/67'']\<rparr>)"
    by (simp add: run_defs)
  have x: "resourceLinodeImageExists (IsClient (scripted healthy)) stored
      \<lparr>world = 1, requests = [ReqGetImage ''private/67'']\<rparr> =
      Returns ((True, None),
        \<lparr>world = 2, requests = [ReqGetImage ''private/67'', ReqGetImage ''private/67'']\<rparr>)"
    by (simp add: resourceLinodeImageExists_def run_defs)
  have v: "rd_id stored = ''private/67''" "rd_attrs stored ''created'' = None"
    "rd_attrs stored ''expiry'' = None"
    "Label (snapshot\<lparr>ID := ''private/67''\<rparr>) = ''snap''"
    "Description (snapshot\<lparr>ID := ''private/67''\<rparr>) = ''nightly''"
    "Type (snapshot\<lparr>ID := ''private/67''\<rparr>) = ''manual''"
    "Size (snapshot\<lparr>ID := ''private/67''\<rparr>) = 2500"
    "Vendor (snapshot\<lparr>ID := ''private/67''\<rparr>) = []"
    "CreatedBy (snapshot\<lparr>ID := ''private/67''\<rparr>) = ''alice''"
    "Deprecated (snapshot\<lparr>ID := ''private/67''\<rparr>) = False"
    "IsPublic (snapshot\<lparr>ID := ''private/67''\<rparr>) = False"
    "Created (snapshot\<lparr>ID := ''private/67''\<rparr>) = Some 86400"
    "Expiry (snapshot\<lparr>ID := ''private/67''\<rparr>) = None"
    "day_stamp 86400 = ''1970-01-02T00:00:00Z''"
    by (simp_all add: stored_def snapshot_def day_stamp_def)
  from Read_maps_every_field [OF g x, of day_stamp]
  obtain d' where r: "resourceLinodeImageRead day_stamp (IsClient (scripted healthy)) stored start =
       Returns (None, d',
         \<lparr>world = 2, requests = [ReqGetImage ''private/67'', ReqGetImage ''private/67'']\<rparr>)"
     and a: "rd_id d' = rd_id stored"
       "rd_attrs d' ''label'' = Some (VString (Label (snapshot\<lparr>ID := ''private/67''\<rparr>)))"
       "rd_attrs d' ''description'' = Some (VString (Description (snapshot\<lparr>ID := ''private/67''\<rparr>)))"
       "rd_attrs d' ''type'' = Some (VString (Type (snapshot\<lparr>ID := ''private/67''\<rparr>)))"
       "rd_attrs d' ''size'' = Some (VInt (Size (snapshot\<lparr>ID := ''private/67''\<rparr>)))"
       "rd_attrs d' ''vendor'' = Some (VString (Vendor (snapshot\<lparr>ID := ''private/67''\<rparr>)))"
       "rd_attrs d' ''created_by'' = Some (VString (CreatedBy (snapshot\<lparr>ID := ''private/67''\<rparr>)))"
       "rd_attrs d' ''deprecated'' = Some (VBool (Deprecated (snapshot\<lparr>ID := ''private/67''\<rparr>)))"
       "rd_attrs d' ''is_public'' = Some (VBool (IsPublic (snapshot\<lparr>ID := ''private/67''\<rparr>)))"
       "rd_attrs d' ''created'' =
          (case Created (snapshot\<lparr>ID := ''private/67''\<rparr>) of
             Some t \<Rightarrow> Some (VString (day_stamp t))
           | None \<Rightarrow> rd_attrs stored ''created'')"
       "rd_attrs d' ''expiry'' =
          (case Expiry (snapshot\<lparr>ID := ''private/67''\<rparr>) of
             Some t \<Rightarrow> Some (VString (day_stamp t))
           | None \<Rightarrow> rd_attrs stored ''expiry'')"
    by blast
  show ?thesis
    by (rule exI [of _ d']) (simp only: r a v option.case simp_thms)
qed

text \<open>
  C10. Claimed: whenever Read reaches the attribute mapping, the entity it reads the fields
  of is not nil. Read keeps the pointer of its own fetch and drops that fetch's error; the
  decision to map is taken from the second fetch, inside Exists. When the first fetch fails
  (nil pointer, error 500) and the second succeeds, Read reads \<^verbatim>\<open>image.Label\<close> through the
  nil pointer and panics.
\<close>

theorem Read_nil_dereference:
  "resourceLinodeImageRead day_stamp
     (IsClient (scripted (fails_at 0 (LinodeError 500 ''Internal Server Error'')))) stored start
   = Panics"
  by (simp add: resourceLinodeImageRead_def resourceLinodeImageExists_def run_defs)

subsection \<open>Delete\<close>

text \<open>
  C2, as amended. Delete clears the local ID and returns success exactly when the delete
  request returns no error. When the delete request returns an error, whatever its kind,
  Delete returns an error that wraps it and names the ID, and leaves the state store as it
  was.
\<close>

theorem Delete_clears_id_on_success_only:
  assumes "client_DeleteImage client (d_Id d) s = (derr, s1)"
  shows "(derr = None \<longrightarrow>
            resourceLinodeImageDelete (IsClient client) d s = Returns (None, d\<lparr>rd_id := []\<rparr>, s1))
       \<and> (\<forall>e. derr = Some e \<longrightarrow>
            resourceLinodeImageDelete (IsClient client) d s =
              Returns (Some (Errorf ''Error deleting Linode Image %s: %s''
                               [ArgS (d_Id d), ArgE e]), d, s1))"
  using assms by (auto simp: resourceLinodeImageDelete_def d_SetId_def)

theorem Delete_clears_id_on_success_only_witness:
  "resourceLinodeImageDelete (IsClient (scripted healthy)) stored start =
     Returns (None, stored\<lparr>rd_id := []\<rparr>,
       \<lparr>world = 1, requests = [ReqDeleteImage ''private/67'']\<rparr>)
   \<and> resourceLinodeImageDelete (IsClient (scripted always_down)) stored start =
     Returns (Some (Errorf ''Error deleting Linode Image %s: %s''
                      [ArgS ''private/67'', ArgE (OtherError ''connection refused'')]), stored,
       \<lparr>world = 1, requests = [ReqDeleteImage ''private/67'']\<rparr>)"
proof -
  have ok: "client_DeleteImage (scripted healthy) (d_Id stored) start =
      (None, \<lparr>world = 1, requests = [ReqDeleteImage ''private/67'']\<rparr>)"
    by (simp add: run_defs)
  have down: "client_DeleteImage (scripted always_down) (d_Id stored) start =
      (Some (OtherError ''connection refused''),
       \<lparr>world = 1, requests = [ReqDeleteImage ''private/67'']\<rparr>)"
    by (simp add: run_defs)
  have id: "d_Id stored = ''private/67''"
    by (simp add: run_defs)
  show ?thesis
    using Delete_clears_id_on_success_only [OF ok] Delete_clears_id_on_success_only [OF down] id
    by simp
qed

text \<open>
  C2, as claimed, fails: when the API answers the delete request with 404 (already gone),
  Delete returns an error and keeps the ID.
\<close>

theorem Delete_not_found_is_an_error:
  "returned_error (resourceLinodeImageDelete (IsClient (scripted always_gone)) stored start) =
     Some (Some (Errorf ''Error deleting Linode Image %s: %s''
                   [ArgS ''private/67'', ArgE (LinodeError 404 ''Not found'')]))
   \<and> map_option rd_id
       (returned_data (resourceLinodeImageDelete (IsClient (scripted always_gone)) stored start)) =
     Some ''private/67''"
  by (simp add: resourceLinodeImageDelete_def returned_error_def returned_data_def run_defs)

subsection \<open>Create\<close>

text \<open>
  Create, step by step: what it returns when the client is missing, when the first wait
  fails, when the create request fails or returns no image, and after the image was
  created.
\<close>

lemma Create_not_a_client:
  "resourceLinodeImageCreate rfc3339 NotAClient d s =
     Returns (Some (Errorf ''Invalid Client when creating Linode Image'' []), d, s)"
  by (simp add: resourceLinodeImageCreate_def)

lemma Create_first_wait_failed:
  assumes "client_WaitForInstanceDiskStatus client (rd_int d ''linode_id'') (rd_int d ''disk_id'')
             DiskReady (rd_timeout d ''create'') s = ((disk, Some e), s1)"
  shows "resourceLinodeImageCreate rfc3339 (IsClient client) d s =
     Returns (Some (Errorf
       ''Error waiting for Linode Instance %d Disk %d to become ready for taking an Image''
       [ArgD (rd_int d ''linode_id''), ArgD (rd_int d ''disk_id'')]), d\<lparr>rd_partial := True\<rparr>, s1)"
  using assms
  by (simp add: resourceLinodeImageCreate_def d_Partial_def Let_def split: option.splits)

lemma Create_request_failed:
  assumes "client_WaitForInstanceDiskStatus client (rd_int d ''linode_id'') (rd_int d ''disk_id'')
             DiskReady (rd_timeout d ''create'') s = ((disk, None), s1)"
    and "client_CreateImage client
           \<lparr>create_DiskID = rd_int d ''disk_id'', create_Label = rd_string d ''label'',
              create_Description = rd_string d ''description''\<rparr> s1 = ((p, Some e), s2)"
  shows "resourceLinodeImageCreate rfc3339 (IsClient client) d s =
     Returns (Some (Errorf ''Error creating a Linode Image: %s'' [ArgE e]),
              d\<lparr>rd_partial := True\<rparr>, s2)"
  using assms
  by (simp add: resourceLinodeImageCreate_def d_Partial_def Let_def split: option.splits)

lemma Create_request_nil:
  assumes "client_WaitForInstanceDiskStatus client (rd_int d ''linode_id'') (rd_int d ''disk_id'')
             DiskReady (rd_timeout d ''create'') s = ((disk, None), s1)"
    and "client_CreateImage client
           \<lparr>create_DiskID = rd_int d ''disk_id'', create_Label = rd_string d ''label'',
              create_Description = rd_string d ''description''\<rparr> s1 = ((None, None), s2)"
  shows "resourceLinodeImageCreate rfc3339 (IsClient client) d s = Panics"
  using assms
  by (simp add: resourceLinodeImageCreate_def d_Partial_def Let_def split: option.splits)

lemma Create_created:
  assumes "client_WaitForInstanceDiskStatus client (rd_int d ''linode_id'') (rd_int d ''disk_id'')
             DiskReady (rd_timeout d ''create'') s = ((disk, None), s1)"
    and "client_CreateImage client
           \<lparr>create_DiskID = rd_int d ''disk_id'', create_Label = rd_string d ''label'',
              create_Description = rd_string d ''description''\<rparr> s1 = ((Some img, None), s2)"
    and "client_WaitForInstanceDiskStatus client (rd_int d ''linode_id'') (rd_int d ''disk_id'')
             DiskReady (rd_timeout d ''create'') s2 = ((disk2, werr), s3)"
    and "resourceLinodeImageExists (IsClient client)
           (d\<lparr>rd_id := ID img, rd_partial := False, rd_partial_keys := {}\<rparr>) s3 =
         Returns ((found, xerr), s4)"
  shows "resourceLinodeImageCreate rfc3339 (IsClient client) d s =
     (case werr of
        Some e \<Rightarrow>
          Returns (Some (Errorf
            ''Error waiting for Linode Instance %d Disk %d to become ready while taking an Image''
            [ArgD (rd_int d ''linode_id''), ArgD (rd_int d ''disk_id'')]),
            d\<lparr>rd_id := ID img, rd_partial := False, rd_partial_keys := {}\<rparr>, s3)
      | None \<Rightarrow>
          (case xerr of
             Some e \<Rightarrow>
               Returns (Some (Errorf ''Error finding the newly created Linode Image: %s'' [ArgE e]),
                 d\<lparr>rd_id := ID img, rd_partial := False, rd_partial_keys := {}\<rparr>, s4)
           | None \<Rightarrow>
               if \<not> found then
                 Returns (Some (Errorf ''The Linode Image failed to be created'' []),
                   d\<lparr>rd_id := ID img, rd_partial := False, rd_partial_keys := {}\<rparr>, s4)
               else resourceLinodeImageRead rfc3339 (IsClient client)
                 (d\<lparr>rd_id := ID img, rd_partial := False, rd_partial_keys := {}\<rparr>) s4))"
  using assms
  by (simp add: resourceLinodeImageCreate_def d_Partial_def d_SetPartial_def d_SetId_def Let_def
      split: option.splits)

text \<open>
  C7. The first request of Create is the wait for the source disk to become ready, with the
  caller's create timeout. When the wait returns an error (the timeout), Create returns the
  error naming the instance and the disk, and the requests sent are that wait only: no
  create request. Every request of a returning Create comes after that wait.
\<close>

theorem Create_waits_for_disk_first:
  assumes w: "client_WaitForInstanceDiskStatus client (rd_int d ''linode_id'')
             (rd_int d ''disk_id'') DiskReady (rd_timeout d ''create'') s = ((disk, werr), s1)"
  shows "requests s1 = requests s @
           [ReqWaitForInstanceDiskStatus (rd_int d ''linode_id'') (rd_int d ''disk_id'')
              DiskReady (rd_timeout d ''create'')]
       \<and> (werr \<noteq> None \<longrightarrow>
            resourceLinodeImageCreate rfc3339 (IsClient client) d s =
              Returns (Some (Errorf
                ''Error waiting for Linode Instance %d Disk %d to become ready for taking an Image''
                [ArgD (rd_int d ''linode_id''), ArgD (rd_int d ''disk_id'')]),
                d\<lparr>rd_partial := True\<rparr>, s1))
       \<and> (\<forall>err d' s'.
            resourceLinodeImageCreate rfc3339 (IsClient client) d s = Returns (err, d', s') \<longrightarrow>
            (\<exists>rest. requests s' = requests s1 @ rest))"
proof (intro conjI allI impI)
  show "requests s1 = requests s @
           [ReqWaitForInstanceDiskStatus (rd_int d ''linode_id'') (rd_int d ''disk_id'')
              DiskReady (rd_timeout d ''create'')]"
    using w by (rule client_WaitForInstanceDiskStatus_requests)
next
  assume "werr \<noteq> None"
  then obtain e where "werr = Some e" by auto
  with w show "resourceLinodeImageCreate rfc3339 (IsClient client) d s =
      Returns (Some (Errorf
        ''Error waiting for Linode Instance %d Disk %d to become ready for taking an Image''
        [ArgD (rd_int d ''linode_id''), ArgD (rd_int d ''disk_id'')]),
        d\<lparr>rd_partial := True\<rparr>, s1)"
    by (simp add: Create_first_wait_failed)
next
  fix err d' s'
  assume r: "resourceLinodeImageCreate rfc3339 (IsClient client) d s = Returns (err, d', s')"
  show "\<exists>rest. requests s' = requests s1 @ rest"
  proof (cases werr)
    case (Some e)
    with w r have "s' = s1" by (simp add: Create_first_wait_failed)
    then show ?thesis by simp
  next
    case None
    note w1 = w [unfolded None]
    obtain p cerr s2 where c: "client_CreateImage client
           \<lparr>create_DiskID = rd_int d ''disk_id'', create_Label = rd_string d ''label'',
              create_Description = rd_string d ''description''\<rparr> s1 = ((p, cerr), s2)"
      by (metis prod.exhaust)
    have q2: "requests s2 = requests s1 @
        [ReqCreateImage \<lparr>create_DiskID = rd_int d ''disk_id'', create_Label = rd_string d ''label'',
              create_Description = rd_string d ''description''\<rparr>]"
      using c by (rule client_CreateImage_requests)
    show ?thesis
    proof (cases cerr)
      case (Some e)
      with w1 c r have "s' = s2" by (simp add: Create_request_failed)
      with q2 show ?thesis by simp
    next
      case cnone: None
      show ?thesis
      proof (cases p)
        case None
        with w1 c cnone r show ?thesis by (simp add: Create_request_nil)
      next
        case (Some img)
        note c1 = c [unfolded cnone Some]
        obtain disk2 werr2 s3 where w2: "client_WaitForInstanceDiskStatus client
             (rd_int d ''linode_id'') (rd_int d ''disk_id'') DiskReady (rd_timeout d ''create'') s2
             = ((disk2, werr2), s3)"
          by (metis prod.exhaust)
        obtain found xerr s4 where x: "resourceLinodeImageExists (IsClient client)
             (d\<lparr>rd_id := ID img, rd_partial := False, rd_partial_keys := {}\<rparr>) s3 =
             Returns ((found, xerr), s4)"
          using Exists_returns by blast
        have q3: "requests s3 = requests s2 @
            [ReqWaitForInstanceDiskStatus (rd_int d ''linode_id'') (rd_int d ''disk_id'')
               DiskReady (rd_timeout d ''create'')]"
          using w2 by (rule client_WaitForInstanceDiskStatus_requests)
        have q4: "requests s4 = requests s3 @ [ReqGetImage (ID img)]"
          using Exists_requests [OF x] by (simp add: d_Id_def)
        note eq = Create_created [OF w1 c1 w2 x, of rfc3339]
        consider "s' = s3" | "s' = s4"
          | "resourceLinodeImageRead rfc3339 (IsClient client)
               (d\<lparr>rd_id := ID img, rd_partial := False, rd_partial_keys := {}\<rparr>) s4 =
               Returns (err, d', s')"
          using r unfolding eq by (auto split: option.splits if_splits)
        then show ?thesis
        proof cases
          case 1
          with q2 q3 show ?thesis by simp
        next
          case 2
          with q2 q3 q4 show ?thesis by simp
        next
          case 3
          from Read_requests [OF 3] q2 q3 q4 show ?thesis by simp
        qed
      qed
    qed
  qed
qed

theorem Create_waits_for_disk_first_witness:
  "resourceLinodeImageCreate day_stamp
     (IsClient (scripted (fails_at 0 (OtherError ''timed out'')))) planned start =
   Returns (Some (Errorf
       ''Error waiting for Linode Instance %d Disk %d to become ready for taking an Image''
       [ArgD 200, ArgD 100]), planned\<lparr>rd_partial := True\<rparr>,
     \<lparr>world = 1, requests = [ReqWaitForInstanceDiskStatus 200 100 DiskReady 1200]\<rparr>)"
proof -
  have w: "client_WaitForInstanceDiskStatus (scripted (fails_at 0 (OtherError ''timed out'')))
      (rd_int planned ''linode_id'') (rd_int planned ''disk_id'') DiskReady
      (rd_timeout planned ''create'') start =
      ((None, Some (OtherError ''timed out'')),
       \<lparr>world = 1, requests = [ReqWaitForInstanceDiskStatus 200 100 DiskReady 1200]\<rparr>)"
    by (simp add: run_defs)
  have v: "rd_int planned ''linode_id'' = 200" "rd_int planned ''disk_id'' = 100"
    by (simp_all add: run_defs)
  show ?thesis
    using Create_waits_for_disk_first [OF w, of day_stamp] v by simp
qed

text \<open>
  C6. When the create request has succeeded, Create sends the second wait and then asks
  Exists (one more fetch, of the new ID). It returns an error when the second wait fails,
  when Exists returns an error and when Exists reports the image absent; so a Create that
  returns success has had the image confirmed present by Exists.
\<close>

theorem Create_confirms_existence:
  assumes w1: "client_WaitForInstanceDiskStatus client (rd_int d ''linode_id'')
             (rd_int d ''disk_id'') DiskReady (rd_timeout d ''create'') s = ((disk, None), s1)"
    and c1: "client_CreateImage client
           \<lparr>create_DiskID = rd_int d ''disk_id'', create_Label = rd_string d ''label'',
              create_Description = rd_string d ''description''\<rparr> s1 = ((Some img, None), s2)"
    and w2: "client_WaitForInstanceDiskStatus client (rd_int d ''linode_id'')
             (rd_int d ''disk_id'') DiskReady (rd_timeout d ''create'') s2 = ((disk2, werr), s3)"
    and x: "resourceLinodeImageExists (IsClient client)
           (d\<lparr>rd_id := ID img, rd_partial := False, rd_partial_keys := {}\<rparr>) s3 =
         Returns ((found, xerr), s4)"
  shows "requests s3 = requests s @
           [ReqWaitForInstanceDiskStatus (rd_int d ''linode_id'') (rd_int d ''disk_id'')
              DiskReady (rd_timeout d ''create''),
            ReqCreateImage \<lparr>create_DiskID = rd_int d ''disk_id'',
              create_Label = rd_string d ''label'',
              create_Description = rd_string d ''description''\<rparr>,
            ReqWaitForInstanceDiskStatus (rd_int d ''linode_id'') (rd_int d ''disk_id'')
              DiskReady (rd_timeout d ''create'')]
       \<and> requests s4 = requests s3 @ [ReqGetImage (ID img)]
       \<and> (werr \<noteq> None \<longrightarrow>
            resourceLinodeImageCreate rfc3339 (IsClient client) d s =
              Returns (Some (Errorf
                ''Error waiting for Linode Instance %d Disk %d to become ready while taking an Image''
                [ArgD (rd_int d ''linode_id''), ArgD (rd_int d ''disk_id'')]),
                d\<lparr>rd_id := ID img, rd_partial := False, rd_partial_keys := {}\<rparr>, s3))
       \<and> (\<forall>e. werr = None \<and> xerr = Some e \<longrightarrow>
            resourceLinodeImageCreate rfc3339 (IsClient client) d s =
              Returns (Some (Errorf ''Error finding the newly created Linode Image: %s''
                               [ArgE e]),
                d\<lparr>rd_id := ID img, rd_partial := False, rd_partial_keys := {}\<rparr>, s4))
       \<and> (werr = None \<and> xerr = None \<and> \<not> found \<longrightarrow>
            resourceLinodeImageCreate rfc3339 (IsClient client) d s =
              Returns (Some (Errorf ''The Linode Image failed to be created'' []),
                d\<lparr>rd_id := ID img, rd_partial := False, rd_partial_keys := {}\<rparr>, s4))
       \<and> (returned_error (resourceLinodeImageCreate rfc3339 (IsClient client) d s) = Some None
            \<longrightarrow> werr = None \<and> xerr = None \<and> found)"
proof -
  note eq = Create_created [OF w1 c1 w2 x, of rfc3339]
  have q1: "requests s1 = requests s @
      [ReqWaitForInstanceDiskStatus (rd_int d ''linode_id'') (rd_int d ''disk_id'')
         DiskReady (rd_timeout d ''create'')]"
    using w1 by (rule client_WaitForInstanceDiskStatus_requests)
  have q2: "requests s2 = requests s1 @
      [ReqCreateImage \<lparr>create_DiskID = rd_int d ''disk_id'',
         create_Label = rd_string d ''label'',
         create_Description = rd_string d ''description''\<rparr>]"
    using c1 by (rule client_CreateImage_requests)
  have q3: "requests s3 = requests s2 @
      [ReqWaitForInstanceDiskStatus (rd_int d ''linode_id'') (rd_int d ''disk_id'')
         DiskReady (rd_timeout d ''create'')]"
    using w2 by (rule client_WaitForInstanceDiskStatus_requests)
  have q4: "requests s4 = requests s3 @ [ReqGetImage (ID img)]"
    using Exists_requests [OF x] by (simp add: d_Id_def)
  have late: "werr \<noteq> None \<longrightarrow>
      resourceLinodeImageCreate rfc3339 (IsClient client) d s =
        Returns (Some (Errorf
          ''Error waiting for Linode Instance %d Disk %d to become ready while taking an Image''
          [ArgD (rd_int d ''linode_id''), ArgD (rd_int d ''disk_id'')]),
          d\<lparr>rd_id := ID img, rd_partial := False, rd_partial_keys := {}\<rparr>, s3)"
    unfolding eq by (auto split: option.splits)
  have unsure: "\<forall>e. werr = None \<and> xerr = Some e \<longrightarrow>
      resourceLinodeImageCreate rfc3339 (IsClient client) d s =
        Returns (Some (Errorf ''Error finding the newly created Linode Image: %s'' [ArgE e]),
          d\<lparr>rd_id := ID img, rd_partial := False, rd_partial_keys := {}\<rparr>, s4)"
    unfolding eq by (auto split: option.splits)
  have absent: "werr = None \<and> xerr = None \<and> \<not> found \<longrightarrow>
      resourceLinodeImageCreate rfc3339 (IsClient client) d s =
        Returns (Some (Errorf ''The Linode Image failed to be created'' []),
          d\<lparr>rd_id := ID img, rd_partial := False, rd_partial_keys := {}\<rparr>, s4)"
    unfolding eq by (auto split: option.splits)
  have success: "returned_error (resourceLinodeImageCreate rfc3339 (IsClient client) d s) =
      Some None \<longrightarrow> werr = None \<and> xerr = None \<and> found"
    unfolding eq by (auto simp: returned_error_def split: option.splits if_splits)
  from q1 q2 q3 have "requests s3 = requests s @
           [ReqWaitForInstanceDiskStatus (rd_int d ''linode_id'') (rd_int d ''disk_id'')
              DiskReady (rd_timeout d ''create''),
            ReqCreateImage \<lparr>create_DiskID = rd_int d ''disk_id'',
              create_Label = rd_string d ''label'',
              create_Description = rd_string d ''description''\<rparr>,
            ReqWaitForInstanceDiskStatus (rd_int d ''linode_id'') (rd_int d ''disk_id'')
              DiskReady (rd_timeout d ''create'')]"
    by simp
  with q4 late unsure absent success show ?thesis by blast
qed

theorem Create_confirms_existence_witness:
  "resourceLinodeImageCreate day_stamp
     (IsClient (scripted (fails_at 3 (LinodeError 404 ''Not found'')))) planned start =
   Returns (Some (Errorf ''The Linode Image failed to be created'' []),
     planned\<lparr>rd_id := ''private/67'', rd_partial := False, rd_partial_keys := {}\<rparr>,
     \<lparr>world = 4, requests =
        [ReqWaitForInstanceDiskStatus 200 100 DiskReady 1200,
         ReqCreateImage \<lparr>create_DiskID = 100, create_Label = ''snap'',
           create_Description = ''nightly''\<rparr>,
         ReqWaitForInstanceDiskStatus 200 100 DiskReady 1200,
         ReqGetImage ''private/67'']\<rparr>)"
proof -
  let ?c = "scripted (fails_at 3 (LinodeError 404 ''Not found''))"
  have v: "rd_int planned ''linode_id'' = 200" "rd_int planned ''disk_id'' = 100"
    "rd_timeout planned ''create'' = 1200" "rd_string planned ''label'' = ''snap''"
    "rd_string planned ''description'' = ''nightly''"
    by (simp_all add: run_defs)
  have w1: "client_WaitForInstanceDiskStatus ?c (rd_int planned ''linode_id'')
      (rd_int planned ''disk_id'') DiskReady (rd_timeout planned ''create'') start =
      ((Some \<lparr>disk_ID = 100, disk_Status = DiskReady\<rparr>, None),
       \<lparr>world = 1, requests = [ReqWaitForInstanceDiskStatus 200 100 DiskReady 1200]\<rparr>)"
    by (simp add: run_defs)
  have c1: "client_CreateImage ?c
      \<lparr>create_DiskID = rd_int planned ''disk_id'', create_Label = rd_string planned ''label'',
         create_Description = rd_string planned ''description''\<rparr>
      \<lparr>world = 1, requests = [ReqWaitForInstanceDiskStatus 200 100 DiskReady 1200]\<rparr> =
      ((Some snapshot, None),
       \<lparr>world = 2, requests = [ReqWaitForInstanceDiskStatus 200 100 DiskReady 1200,
          ReqCreateImage \<lparr>create_DiskID = 100, create_Label = ''snap'',
            create_Description = ''nightly''\<rparr>]\<rparr>)"
    by (simp add: run_defs)
  have w2: "client_WaitForInstanceDiskStatus ?c (rd_int planned ''linode_id'')
      (rd_int planned ''disk_id'') DiskReady (rd_timeout planned ''create'')
      \<lparr>world = 2, requests = [ReqWaitForInstanceDiskStatus 200 100 DiskReady 1200,
          ReqCreateImage \<lparr>create_DiskID = 100, create_Label = ''snap'',
            create_Description = ''nightly''\<rparr>]\<rparr> =
      ((Some \<lparr>disk_ID = 100, disk_Status = DiskReady\<rparr>, None),
       \<lparr>world = 3, requests = [ReqWaitForInstanceDiskStatus 200 100 DiskReady 1200,
          ReqCreateImage \<lparr>create_DiskID = 100, create_Label = ''snap'',
            create_Description = ''nightly''\<rparr>,
          ReqWaitForInstanceDiskStatus 200 100 DiskReady 1200]\<rparr>)"
    by (simp add: run_defs)
  have x: "resourceLinodeImageExists (IsClient ?c)
      (planned\<lparr>rd_id := ID snapshot, rd_partial := False, rd_partial_keys := {}\<rparr>)
      \<lparr>world = 3, requests = [ReqWaitForInstanceDiskStatus 200 100 DiskReady 1200,
          ReqCreateImage \<lparr>create_DiskID = 100, create_Label = ''snap'',
            create_Description = ''nightly''\<rparr>,
          ReqWaitForInstanceDiskStatus 200 100 DiskReady 1200]\<rparr> =
      Returns ((False, None),
       \<lparr>world = 4, requests = [ReqWaitForInstanceDiskStatus 200 100 DiskReady 1200,
          ReqCreateImage \<lparr>create_DiskID = 100, create_Label = ''snap'',
            create_Description = ''nightly''\<rparr>,
          ReqWaitForInstanceDiskStatus 200 100 DiskReady 1200,
          ReqGetImage ''private/67'']\<rparr>)"
    by (simp add: resourceLinodeImageExists_def run_defs)
  have i: "ID snapshot = ''private/67''"
    by (simp add: snapshot_def)
  show ?thesis
    using Create_confirms_existence [OF w1 c1 w2 x, of day_stamp] i by simp
qed

text \<open>
  C3, as amended. When Create returns an error, it has written no attribute. The local ID
  is unchanged when the error came before the create request had succeeded (no client, the
  first wait failed, the create request failed). When the create request had succeeded and
  a later step failed (the second wait, Exists, the final Read), the error is returned with
  the ID of the created image stored locally.
\<close>

theorem Create_error_state:
  assumes r: "resourceLinodeImageCreate rfc3339 meta d s = Returns (Some e, d', s')"
  shows "rd_attrs d' = rd_attrs d
       \<and> (meta = NotAClient \<longrightarrow> rd_id d' = rd_id d)
       \<and> (\<forall>client disk werr s1 p cerr s2.
            meta = IsClient client
            \<and> client_WaitForInstanceDiskStatus client (rd_int d ''linode_id'')
                (rd_int d ''disk_id'') DiskReady (rd_timeout d ''create'') s = ((disk, werr), s1)
            \<and> client_CreateImage client
                \<lparr>create_DiskID = rd_int d ''disk_id'', create_Label = rd_string d ''label'',
                   create_Description = rd_string d ''description''\<rparr> s1 = ((p, cerr), s2)
            \<longrightarrow> (if werr = None \<and> cerr = None then map_option ID p = Some (rd_id d')
                 else rd_id d' = rd_id d))"
proof (cases meta)
  case NotAClient
  with r show ?thesis by (simp add: Create_not_a_client)
next
  case (IsClient client)
  note r' = r [unfolded IsClient]
  obtain disk werr s1 where w: "client_WaitForInstanceDiskStatus client (rd_int d ''linode_id'')
      (rd_int d ''disk_id'') DiskReady (rd_timeout d ''create'') s = ((disk, werr), s1)"
    by (metis prod.exhaust)
  obtain p cerr s2 where c: "client_CreateImage client
      \<lparr>create_DiskID = rd_int d ''disk_id'', create_Label = rd_string d ''label'',
         create_Description = rd_string d ''description''\<rparr> s1 = ((p, cerr), s2)"
    by (metis prod.exhaust)
  have main: "rd_attrs d' = rd_attrs d
      \<and> (if werr = None \<and> cerr = None then map_option ID p = Some (rd_id d')
          else rd_id d' = rd_id d)"
  proof (cases werr)
    case (Some e1)
    with w r' show ?thesis by (auto simp: Create_first_wait_failed)
  next
    case None
    note w1 = w [unfolded None]
    show ?thesis
    proof (cases cerr)
      case (Some e2)
      with w1 c r' None show ?thesis by (auto simp: Create_request_failed)
    next
      case cnone: None
      show ?thesis
      proof (cases p)
        case None
        with w1 c cnone r' show ?thesis by (simp add: Create_request_nil)
      next
        case (Some img)
        note c1 = c [unfolded cnone Some]
        obtain disk2 werr2 s3 where w2: "client_WaitForInstanceDiskStatus client
             (rd_int d ''linode_id'') (rd_int d ''disk_id'') DiskReady (rd_timeout d ''create'') s2
             = ((disk2, werr2), s3)"
          by (metis prod.exhaust)
        obtain found xerr s4 where x: "resourceLinodeImageExists (IsClient client)
             (d\<lparr>rd_id := ID img, rd_partial := False, rd_partial_keys := {}\<rparr>) s3 =
             Returns ((found, xerr), s4)"
          using Exists_returns by blast
        note eq = Create_created [OF w1 c1 w2 x, of rfc3339]
        consider "d' = d\<lparr>rd_id := ID img, rd_partial := False, rd_partial_keys := {}\<rparr>"
          | "resourceLinodeImageRead rfc3339 (IsClient client)
               (d\<lparr>rd_id := ID img, rd_partial := False, rd_partial_keys := {}\<rparr>) s4 =
               Returns (Some e, d', s')"
          using r' unfolding eq by (auto split: option.splits if_splits)
        then have "d' = d\<lparr>rd_id := ID img, rd_partial := False, rd_partial_keys := {}\<rparr>"
          by cases (auto dest: Read_error_keeps_state)
        with None cnone Some show ?thesis by simp
      qed
    qed
  qed
  show ?thesis
  proof (intro conjI allI impI)
    show "rd_attrs d' = rd_attrs d" using main by simp
  next
    assume "meta = NotAClient"
    with IsClient show "rd_id d' = rd_id d" by simp
  next
    fix client' disk' werr' s1' p' cerr' s2'
    assume a: "meta = IsClient client'
            \<and> client_WaitForInstanceDiskStatus client' (rd_int d ''linode_id'')
                (rd_int d ''disk_id'') DiskReady (rd_timeout d ''create'') s = ((disk', werr'), s1')
            \<and> client_CreateImage client'
                \<lparr>create_DiskID = rd_int d ''disk_id'', create_Label = rd_string d ''label'',
                   create_Description = rd_string d ''description''\<rparr> s1' = ((p', cerr'), s2')"
    with IsClient have "client' = client" by simp
    with a w have "werr' = werr" "s1' = s1" by simp_all
    with a c \<open>client' = client\<close> have "p' = p" "cerr' = cerr" by simp_all
    with main \<open>werr' = werr\<close>
    show "if werr' = None \<and> cerr' = None then map_option ID p' = Some (rd_id d')
          else rd_id d' = rd_id d"
      by simp
  qed
qed

theorem Create_error_state_witness:
  "resourceLinodeImageCreate day_stamp
     (IsClient (scripted (fails_at 1 (LinodeError 400 ''label must be unique'')))) planned start =
   Returns (Some (Errorf ''Error creating a Linode Image: %s''
                    [ArgE (LinodeError 400 ''label must be unique'')]),
     planned\<lparr>rd_partial := True\<rparr>,
     \<lparr>world = 2, requests =
        [ReqWaitForInstanceDiskStatus 200 100 DiskReady 1200,
         ReqCreateImage \<lparr>create_DiskID = 100, create_Label = ''snap'',
           create_Description = ''nightly''\<rparr>]\<rparr>)
   \<and> rd_attrs (planned\<lparr>rd_partial := True\<rparr>) = rd_attrs planned
   \<and> rd_id (planned\<lparr>rd_partial := True\<rparr>) = rd_id planned"
proof -
  let ?c = "scripted (fails_at 1 (LinodeError 400 ''label must be unique''))"
  have run: "resourceLinodeImageCreate day_stamp (IsClient ?c) planned start =
     Returns (Some (Errorf ''Error creating a Linode Image: %s''
                    [ArgE (LinodeError 400 ''label must be unique'')]),
       planned\<lparr>rd_partial := True\<rparr>,
       \<lparr>world = 2, requests =
        [ReqWaitForInstanceDiskStatus 200 100 DiskReady 1200,
         ReqCreateImage \<lparr>create_DiskID = 100, create_Label = ''snap'',
           create_Description = ''nightly''\<rparr>]\<rparr>)"
    by (simp add: op_defs run_defs)
  show ?thesis
    using Create_error_state [OF run] run by simp
qed

text \<open>
  C3, as claimed, fails: the image is created, the second wait times out, and Create
  returns the error with the new image's ID in the state store, which had none.
\<close>

theorem Create_keeps_id_after_late_failure:
  "returned_error (resourceLinodeImageCreate day_stamp
     (IsClient (scripted (fails_at 2 (OtherError ''timed out'')))) planned start) =
     Some (Some (Errorf
       ''Error waiting for Linode Instance %d Disk %d to become ready while taking an Image''
       [ArgD 200, ArgD 100]))
   \<and> rd_id planned = []
   \<and> map_option rd_id (returned_data (resourceLinodeImageCreate day_stamp
     (IsClient (scripted (fails_at 2 (OtherError ''timed out'')))) planned start)) =
     Some ''private/67''"
  by (simp add: op_defs run_defs)

subsection \<open>Update\<close>

text \<open>Update, step by step: when its fetch fails, and after the update request.\<close>

lemma Update_fetch_failed:
  assumes "client_GetImage client (d_Id d) s = ((p, Some e), s1)"
  shows "resourceLinodeImageUpdate rfc3339 (IsClient client) d s =
     Returns (Some (Errorf ''Error fetching data about the current Image: %s'' [ArgE e]), d, s1)"
  using assms by (simp add: resourceLinodeImageUpdate_def split: option.splits)

lemma Update_sent:
  assumes "client_GetImage client (d_Id d) s = ((p, None), s1)"
    and "client_UpdateImage client (d_Id d)
           \<lparr>update_Label = (if d_HasChange d ''label'' then rd_string d ''label'' else []),
              update_Description =
                (if d_HasChange d ''description'' then Some (rd_string d ''description'')
                 else None)\<rparr> s1 = ((q, uerr), s2)"
  shows "resourceLinodeImageUpdate rfc3339 (IsClient client) d s =
     (case uerr of
        Some e \<Rightarrow> Returns (Some e, d, s2)
      | None \<Rightarrow>
          (case q of
             None \<Rightarrow> Panics
           | Some img \<Rightarrow>
               resourceLinodeImageRead rfc3339 (IsClient client)
                 (d_Set (d_Set d ''label'' (VString (Label img)))
                    ''description'' (VString (Description img))) s2))"
  using assms
  by (cases "d_HasChange d ''label''"; cases "d_HasChange d ''description''")
     (simp_all add: resourceLinodeImageUpdate_def Let_def split: option.splits)

text \<open>
  C8, as amended. When the fetch of Update succeeds, Update sends exactly one update
  request, whether or not anything changed. Its options hold the new label if the label
  changed and the empty string otherwise, and the new description if the description
  changed and nil otherwise. When the fetch fails, Update returns an error and sends no
  update request.
\<close>

theorem Update_request_options:
  assumes g: "client_GetImage client (d_Id d) s = ((p, gerr), s1)"
  shows "requests s1 = requests s @ [ReqGetImage (d_Id d)]
       \<and> (gerr \<noteq> None \<longrightarrow>
            (\<exists>e. resourceLinodeImageUpdate rfc3339 (IsClient client) d s =
                   Returns (Some e, d, s1)))
       \<and> (gerr = None \<longrightarrow>
            (\<forall>err d' s'.
               resourceLinodeImageUpdate rfc3339 (IsClient client) d s = Returns (err, d', s')
               \<longrightarrow> (\<exists>rest.
                     requests s' = requests s1 @
                       ReqUpdateImage (d_Id d)
                         \<lparr>update_Label =
                            (if d_HasChange d ''label'' then rd_string d ''label'' else []),
                          update_Description =
                            (if d_HasChange d ''description''
                             then Some (rd_string d ''description'') else None)\<rparr> # rest
                     \<and> (\<forall>ident opts. ReqUpdateImage ident opts \<notin> set rest))))"
proof (intro conjI allI impI)
  show "requests s1 = requests s @ [ReqGetImage (d_Id d)]"
    using g by (rule client_GetImage_requests)
next
  assume "gerr \<noteq> None"
  then obtain e where "gerr = Some e" by auto
  with g show "\<exists>e. resourceLinodeImageUpdate rfc3339 (IsClient client) d s =
      Returns (Some e, d, s1)"
    by (simp add: Update_fetch_failed)
next
  fix err d' s'
  let ?opts = "\<lparr>update_Label = (if d_HasChange d ''label'' then rd_string d ''label'' else []),
                 update_Description =
                   (if d_HasChange d ''description'' then Some (rd_string d ''description'')
                    else None)\<rparr>"
  assume n: "gerr = None"
    and r: "resourceLinodeImageUpdate rfc3339 (IsClient client) d s = Returns (err, d', s')"
  obtain q uerr s2 where u: "client_UpdateImage client (d_Id d) ?opts s1 = ((q, uerr), s2)"
    by (metis prod.exhaust)
  have q2: "requests s2 = requests s1 @ [ReqUpdateImage (d_Id d) ?opts]"
    using u by (rule client_UpdateImage_requests)
  note eq = Update_sent [OF g [unfolded n] u, of rfc3339]
  show "\<exists>rest. requests s' = requests s1 @ ReqUpdateImage (d_Id d) ?opts # rest
                \<and> (\<forall>ident opts. ReqUpdateImage ident opts \<notin> set rest)"
  proof (cases uerr)
    case (Some e)
    with r eq have "s' = s2" by simp
    with q2 show ?thesis by simp
  next
    case unone: None
    show ?thesis
    proof (cases q)
      case None
      with r eq unone show ?thesis by simp
    next
      case (Some img)
      with r eq unone
      have rd: "resourceLinodeImageRead rfc3339 (IsClient client)
                 (d_Set (d_Set d ''label'' (VString (Label img)))
                    ''description'' (VString (Description img))) s2 = Returns (err, d', s')"
        by simp
      from Read_requests [OF rd] q2 show ?thesis by (simp add: d_Id_def d_Set_def)
    qed
  qed
qed

theorem Update_request_options_witness:
  "d_HasChange relabelled ''label'' \<and> \<not> d_HasChange relabelled ''description''
   \<and> resourceLinodeImageUpdate day_stamp (IsClient (scripted healthy)) relabelled start \<noteq> Panics
   \<and> returned_requests (resourceLinodeImageUpdate day_stamp (IsClient (scripted healthy))
        relabelled start) =
     Some [ReqGetImage ''private/67'',
           ReqUpdateImage ''private/67'' \<lparr>update_Label = ''weekly'', update_Description = None\<rparr>,
           ReqGetImage ''private/67'', ReqGetImage ''private/67'']"
proof -
  have g: "client_GetImage (scripted healthy) (d_Id relabelled) start =
      ((Some (snapshot\<lparr>ID := ''private/67''\<rparr>), None),
       \<lparr>world = 1, requests = [ReqGetImage ''private/67'']\<rparr>)"
    by (simp add: run_defs)
  have run: "returned_requests (resourceLinodeImageUpdate day_stamp (IsClient (scripted healthy))
        relabelled start) =
     Some [ReqGetImage ''private/67'',
           ReqUpdateImage ''private/67'' \<lparr>update_Label = ''weekly'', update_Description = None\<rparr>,
           ReqGetImage ''private/67'', ReqGetImage ''private/67'']"
    by (simp add: op_defs run_defs)
  have ch: "d_HasChange relabelled ''label''" "\<not> d_HasChange relabelled ''description''"
    by (simp_all add: run_defs)
  have np: "resourceLinodeImageUpdate day_stamp (IsClient (scripted healthy)) relabelled start
      \<noteq> Panics"
    using run by (auto simp: returned_requests_def)
  show ?thesis
    using Update_request_options [OF g, of day_stamp] run ch np by simp
qed

text \<open>
  C8, as claimed, fails where it says that nothing changed means no update request: with
  neither label nor description changed, Update still sends the update request, with the
  empty options.
\<close>

theorem Update_sends_request_without_changes:
  "d_HasChange stored ''label'' = False \<and> d_HasChange stored ''description'' = False
   \<and> returned_requests (resourceLinodeImageUpdate day_stamp (IsClient (scripted healthy))
        stored start) =
     Some [ReqGetImage ''private/67'',
           ReqUpdateImage ''private/67'' \<lparr>update_Label = [], update_Description = None\<rparr>,
           ReqGetImage ''private/67'', ReqGetImage ''private/67'']"
  by (simp add: op_defs run_defs)

end
